theory Spec2Isabelle
  imports Main
begin

section \<open>The resource resolver of vk-io (snippets/resource-resolver.ts)\<close>

text \<open>
  The resolver turns a raw reference (a number or a string) into a descriptor
  \<open>{id, ownerId?, type}\<close>. It is a chain of regular-expression tests; each regular
  expression of the file is written out below as the function it computes, and the
  functions of the class follow the source statement by statement.

  Conventions of the embedding:
  \<^item> a JavaScript string is a \<open>string\<close> (a list of 8-bit characters, read as Latin-1
    code points);
  \<^item> a JavaScript number is \<open>Integer i\<close>, \<open>NaN\<close> or an infinity. The conversions
    between numbers and text are written out where a double is exact, that is on the
    safe integers (magnitude at most \<open>2^53 - 1\<close>), and are parameters elsewhere;
  \<^item> a value that may be \<open>undefined\<close> is an \<open>option\<close>;
  \<^item> the right summand of the result is a returned record of the interface
    \<open>IResolvedResource\<close>; the left summand is every other outcome: a thrown exception,
    or a returned object whose \<open>type\<close> is not a string;
  \<^item> the awaited remote call is a function of its argument;
  \<^item> the three patterns imported from \<open>utils/helpers\<close>, the \<open>URL\<close> constructor, the
    number conversions outside the safe integers and the remote call are fields of a
    record of dependencies.
\<close>

subsection \<open>Characters and strings\<close>

definition isDigit :: "char \<Rightarrow> bool" where
  \<comment> \<open>The class \<open>\d\<close>, that is \<open>[0-9]\<close>.\<close>
  "isDigit c = (48 \<le> (of_char c :: nat) \<and> (of_char c :: nat) \<le> 57)"

definition isAlpha :: "char \<Rightarrow> bool" where
  \<comment> \<open>The class \<open>[A-Za-z]\<close>.\<close>
  "isAlpha c = ((65 \<le> (of_char c :: nat) \<and> (of_char c :: nat) \<le> 90)
     \<or> (97 \<le> (of_char c :: nat) \<and> (of_char c :: nat) \<le> 122))"

definition isWhiteSpace :: "char \<Rightarrow> bool" where
  \<comment> \<open>White space and line terminators among the Latin-1 code points:
      TAB, LF, VT, FF, CR, SPACE, NBSP.\<close>
  "isWhiteSpace c = ((of_char c :: nat) \<in> set [9, 10, 11, 12, 13, 32, 160])"

definition trim :: "string \<Rightarrow> string" where
  \<comment> \<open>\<open>String.prototype.trim\<close>.\<close>
  "trim s = rev (dropWhile isWhiteSpace (rev (dropWhile isWhiteSpace s)))"

definition toLowerChar :: "char \<Rightarrow> char" where
  "toLowerChar c =
     (let n = (of_char c :: nat)
      in if (65 \<le> n \<and> n \<le> 90) \<or> (192 \<le> n \<and> n \<le> 222 \<and> n \<noteq> 215)
         then char_of (n + 32) else c)"

definition toLowerCase :: "string \<Rightarrow> string" where
  \<comment> \<open>\<open>String.prototype.toLowerCase\<close>.\<close>
  "toLowerCase s = map toLowerChar s"

definition startsWith_i :: "string \<Rightarrow> string \<Rightarrow> bool" where
  \<comment> \<open>The lower-case literal \<open>p\<close> matches at the start of \<open>s\<close> under the flag \<open>i\<close>.\<close>
  "startsWith_i p s = (toLowerCase (take (length p) s) = p)"

subsection \<open>Numbers\<close>

datatype number = Integer int | NaN | Infinity | NegInfinity

definition MAX_SAFE_INTEGER :: int where
  \<comment> \<open>\<open>Number.MAX_SAFE_INTEGER\<close>\<close>
  "MAX_SAFE_INTEGER = 2 ^ 53 - 1"

definition isSafeInteger :: "int \<Rightarrow> bool" where
  \<comment> \<open>The integers every one of which is a double, printed and read back exactly.\<close>
  "isSafeInteger i = (\<bar>i\<bar> \<le> MAX_SAFE_INTEGER)"

definition digitChar :: "nat \<Rightarrow> char" where
  "digitChar n = char_of (48 + n)"

definition digitValue :: "char \<Rightarrow> nat" where
  "digitValue c = of_char c - 48"

fun natToString :: "nat \<Rightarrow> string" where
  "natToString n =
     (if n < 10 then [digitChar n] else natToString (n div 10) @ [digitChar (n mod 10)])"

declare natToString.simps [simp del]

definition intToString :: "int \<Rightarrow> string" where
  \<comment> \<open>The decimal text of an integer.\<close>
  "intToString i = (if i < 0 then CHR ''-'' # natToString (nat (- i)) else natToString (nat i))"

fun negate :: "number \<Rightarrow> number" where
  \<comment> \<open>Unary minus.\<close>
  "negate (Integer i) = Integer (- i)"
| "negate NaN = NaN"
| "negate Infinity = NegInfinity"
| "negate NegInfinity = Infinity"

fun lessThanZero :: "number \<Rightarrow> bool" where
  \<comment> \<open>\<open>x < 0\<close>\<close>
  "lessThanZero (Integer i) = (i < 0)"
| "lessThanZero NaN = False"
| "lessThanZero Infinity = False"
| "lessThanZero NegInfinity = True"

definition digitsToNat :: "string \<Rightarrow> nat" where
  "digitsToNat ds = foldl (\<lambda>n c. 10 * n + digitValue c) 0 ds"

subsection \<open>Regular expressions\<close>

text \<open>
  A regular expression without the flags \<open>g\<close> and \<open>y\<close> is the function \<open>str.match(re)\<close>
  computes: \<open>None\<close> for \<open>null\<close>, otherwise the match array, index 0 the matched text and
  index \<open>k\<close> the \<open>k\<close>-th capture group (\<open>None\<close> for a group that took no part).
  \<open>re.test(x)\<close> converts its argument to a string first, so \<open>undefined\<close> is tested as
  the text \<open>undefined\<close>.
\<close>

type_synonym RegExp = "string \<Rightarrow> string option list option"

fun ToString_arg :: "string option \<Rightarrow> string" where
  "ToString_arg None = ''undefined''"
| "ToString_arg (Some s) = s"

definition test :: "RegExp \<Rightarrow> string option \<Rightarrow> bool" where
  "test re x = (re (ToString_arg x) \<noteq> None)"

definition capture :: "string option list \<Rightarrow> nat \<Rightarrow> string option" where
  \<comment> \<open>Property \<open>k\<close> of a match array; \<open>undefined\<close> beyond its length.\<close>
  "capture m k = (if k < length m then m ! k else None)"

definition numberRe_test :: "string \<Rightarrow> bool" where
  \<comment> \<open>\<open>/^-?\d+$/\<close>\<close>
  "numberRe_test s =
     (let ds = (if s \<noteq> [] \<and> hd s = CHR ''-'' then tl s else s)
      in ds \<noteq> [] \<and> list_all isDigit ds)"

fun hasProtocolRe_test :: "string \<Rightarrow> bool" where
  \<comment> \<open>\<open>/https?:\/\//i\<close>: not anchored, so every position of the string is tried.\<close>
  "hasProtocolRe_test [] = False"
| "hasProtocolRe_test (c # cs) =
     (startsWith_i ''http://'' (c # cs) \<or> startsWith_i ''https://'' (c # cs)
      \<or> hasProtocolRe_test cs)"

definition isVKUrl_test :: "string \<Rightarrow> bool" where
  \<comment> \<open>\<open>/^(?:https?:\/\/)?(?:m\.)?vk\.com/i\<close>: anchored at the start only; the two
      optional groups give six literal prefixes.\<close>
  "isVKUrl_test s =
     list_ex (\<lambda>p. startsWith_i p s)
       [''vk.com'', ''m.vk.com'', ''http://vk.com'', ''http://m.vk.com'',
        ''https://vk.com'', ''https://m.vk.com'']"

definition isUserMentionRe_test :: "string \<Rightarrow> bool" where
  \<comment> \<open>\<open>/\*|@/\<close>: not anchored, a \<open>*\<close> or an \<open>@\<close> anywhere in the string.\<close>
  "isUserMentionRe_test s = (CHR ''*'' \<in> set s \<or> CHR ''@'' \<in> set s)"

fun systemMentionRe :: RegExp where
  \<comment> \<open>\<open>/\[([^|]+)|([^|\]]+)\]/\<close>. The bar in the middle is the alternation, so the
      pattern is \<open>\[([^|]+)\<close> or \<open>([^|\]]+)\]\<close>, tried in this order at each position
      from the left. Both classes are greedy and exclude what may follow them, so the
      longest run is the only candidate.\<close>
  "systemMentionRe [] = None"
| "systemMentionRe (c # cs) =
     (let run1 = takeWhile (\<lambda>x. x \<noteq> CHR ''|'') cs;
          run2 = takeWhile (\<lambda>x. x \<noteq> CHR ''|'' \<and> x \<noteq> CHR '']'') (c # cs);
          rest2 = dropWhile (\<lambda>x. x \<noteq> CHR ''|'' \<and> x \<noteq> CHR '']'') (c # cs)
      in if c = CHR ''['' \<and> run1 \<noteq> [] then Some [Some (c # run1), Some run1, None]
         else if run2 \<noteq> [] \<and> rest2 \<noteq> [] \<and> hd rest2 = CHR '']''
           then Some [Some (run2 @ '']''), None, Some run2]
         else systemMentionRe cs)"

fun removeSearchParam_replace :: "string \<Rightarrow> string" where
  \<comment> \<open>\<open>s.replace(/(\?|&)[^=]+=/, '')\<close>: the first match from the left is removed.\<close>
  "removeSearchParam_replace [] = []"
| "removeSearchParam_replace (c # cs) =
     (let run = takeWhile (\<lambda>x. x \<noteq> CHR ''='') cs
      in if (c = CHR ''?'' \<or> c = CHR ''&'') \<and> run \<noteq> [] \<and> length run < length cs
         then drop (Suc (length run)) cs
         else c # removeSearchParam_replace cs)"

subsection \<open>Data model\<close>

datatype ResourceErrorCode = INVALID_URL | INVALID_RESOURCE | RESOURCE_NOT_FOUND

datatype error =
    ResourceError ResourceErrorCode string
  | TypeError
  | TypeNotString number string

text \<open>
  \<open>ResourceError\<close> and \<open>TypeError\<close> are the exceptions thrown. \<open>TypeNotString i k\<close> is no
  exception: it stands for the returned object \<open>{id: i, type: v}\<close> in which \<open>v\<close> is the
  member of \<open>Object.prototype\<close> named \<open>k\<close> (a function or an object), which is not a
  value of \<open>IResolvedResource\<close>.
\<close>

record IResolvedResource =
  id' :: number
  ownerId :: "number option"
  type' :: string

type_synonym result = "error + IResolvedResource"

datatype RawResource = Num int | Str string

datatype response =
    IsArray
  | Object string int

record deps =
  parseResourceRe :: RegExp
  parseAttachmentRe :: RegExp
  parseOwnerResourceRe :: RegExp
  URL :: "string \<Rightarrow> (string \<times> string) option"
  Number_other :: "string \<Rightarrow> number"
  String_other :: "int \<Rightarrow> string"
  api_utils_resolveScreenName :: "string option \<Rightarrow> response"

text \<open>
  \<open>URL u\<close> is \<open>new URL(u)\<close>: \<open>Some (pathname, search)\<close>, or \<open>None\<close> when the constructor
  throws its \<open>TypeError\<close>. \<open>api_utils_resolveScreenName\<close> is the remote lookup:
  \<open>IsArray\<close> when the response is an array, \<open>Object type object_id\<close> otherwise.

  \<open>Number_other s\<close> is \<open>Number(s)\<close> on a string that is neither empty after trimming nor
  a decimal literal of a safe integer: there the platform rounds to the nearest double,
  overflows to an infinity, reads other notations or gives \<open>NaN\<close>. \<open>String_other i\<close> is
  \<open>String(i)\<close> for an integer beyond the safe ones, where the platform prints the
  shortest digits that read back as the same double, in exponent notation from
  \<open>1e21\<close> on. A number with a fractional part has no representation here; the digit
  captures of the resolver do not produce one.
\<close>

fun ToString :: "deps \<Rightarrow> number \<Rightarrow> string" where
  \<comment> \<open>\<open>String(x)\<close> and the conversion done by \<open>'id' + x\<close>.\<close>
  "ToString d (Integer i) = (if isSafeInteger i then intToString i else String_other d i)"
| "ToString d NaN = ''NaN''"
| "ToString d Infinity = ''Infinity''"
| "ToString d NegInfinity = ''-Infinity''"

definition StringToNumber :: "deps \<Rightarrow> string \<Rightarrow> number" where
  \<comment> \<open>\<open>Number(s)\<close> on a string: white space is trimmed, the empty string is 0, a decimal
      literal of a safe integer, with an optional sign, is its value.\<close>
  "StringToNumber d str =
     (let s = trim str
      in if s = [] then Integer 0
         else if list_all isDigit s \<and> isSafeInteger (int (digitsToNat s))
           then Integer (int (digitsToNat s))
         else if (hd s = CHR ''-'' \<or> hd s = CHR ''+'') \<and> tl s \<noteq> [] \<and> list_all isDigit (tl s)
                 \<and> isSafeInteger (int (digitsToNat (tl s)))
           then Integer ((if hd s = CHR ''-'' then - 1 else 1) * int (digitsToNat (tl s)))
         else Number_other d str)"

fun Number :: "deps \<Rightarrow> string option \<Rightarrow> number" where
  \<comment> \<open>\<open>Number(x)\<close>; \<open>Number(undefined)\<close> is \<open>NaN\<close>.\<close>
  "Number d None = NaN"
| "Number d (Some s) = StringToNumber d s"

definition ResourceType_USER :: string where
  \<comment> \<open>Modelled from the spec: \<open>ResourceType.USER\<close> of utils/constants, the canonical
      tag of the alias \<open>id\<close>.\<close>
  "ResourceType_USER = ''user''"

definition ResourceType_GROUP :: string where
  \<comment> \<open>Modelled from the spec: \<open>ResourceType.GROUP\<close> of utils/constants, the canonical
      tag of the aliases \<open>club\<close> and \<open>public\<close>.\<close>
  "ResourceType_GROUP = ''group''"

definition ResourceType_APPLICATION :: string where
  \<comment> \<open>Modelled from the spec: \<open>ResourceType.APPLICATION\<close> of utils/constants, the
      canonical tag of the alias \<open>app\<close>.\<close>
  "ResourceType_APPLICATION = ''application''"

definition enumResourceTypes :: "string \<rightharpoonup> string" where
  \<comment> \<open>The own keys of the object literal.\<close>
  "enumResourceTypes =
     [''id'' \<mapsto> ResourceType_USER,
      ''club'' \<mapsto> ResourceType_GROUP,
      ''public'' \<mapsto> ResourceType_GROUP,
      ''app'' \<mapsto> ResourceType_APPLICATION]"

definition Object_prototype :: "string list" where
  \<comment> \<open>The names of the members of \<open>Object.prototype\<close>, which every object literal
      inherits.\<close>
  "Object_prototype =
     [''constructor'', ''__defineGetter__'', ''__defineSetter__'', ''hasOwnProperty'',
      ''__lookupGetter__'', ''__lookupSetter__'', ''isPrototypeOf'',
      ''propertyIsEnumerable'', ''toString'', ''valueOf'', ''__proto__'',
      ''toLocaleString'']"

datatype property = Undefined | Value string | Inherited

definition getProperty :: "(string \<rightharpoonup> string) \<Rightarrow> string \<Rightarrow> property" where
  \<comment> \<open>\<open>obj[key]\<close> on an object literal: an own key first, then the prototype; none of
      the inherited members is \<open>undefined\<close>.\<close>
  "getProperty obj key =
     (case obj key of
        Some v \<Rightarrow> Value v
      | None \<Rightarrow> if key \<in> set Object_prototype then Inherited else Undefined)"

subsection \<open>The resolver\<close>

definition falsy :: "RawResource \<Rightarrow> bool" where
  \<comment> \<open>\<open>!rawResource\<close>: the number 0 and the empty string.\<close>
  "falsy raw = (case raw of Num n \<Rightarrow> n = 0 | Str s \<Rightarrow> s = [])"

definition String :: "deps \<Rightarrow> RawResource \<Rightarrow> string" where
  "String d raw = (case raw of Num n \<Rightarrow> ToString d (Integer n) | Str s \<Rightarrow> s)"

definition resolveOwnerResource :: "deps \<Rightarrow> string option \<Rightarrow> RegExp \<Rightarrow> result" where
  \<comment> \<open>The first argument supplies the platform's \<open>Number\<close>.\<close>
  "resolveOwnerResource d resource pattern =
     (case resource of
        None \<Rightarrow> Inl TypeError
      | Some r \<Rightarrow>
          (case pattern r of
             None \<Rightarrow> Inl TypeError
           | Some m \<Rightarrow>
               (case capture m 1 of
                  None \<Rightarrow> Inl TypeError
                | Some type \<Rightarrow>
                    Inr \<lparr>id' = Number d (capture m 3),
                         ownerId = Some (Number d (capture m 2)),
                         type' = removeSearchParam_replace (toLowerCase type)\<rparr>)))"

definition resolveScreenName :: "deps \<Rightarrow> string option \<Rightarrow> result" where
  "resolveScreenName d resource =
     (if test (parseAttachmentRe d) resource
        then resolveOwnerResource d resource (parseAttachmentRe d)
      else if test (parseOwnerResourceRe d) resource
        then resolveOwnerResource d resource (parseOwnerResourceRe d)
      else if test (parseResourceRe d) resource
        then (case resource of
                None \<Rightarrow> Inl TypeError
              | Some r \<Rightarrow>
                  (case parseResourceRe d r of
                     None \<Rightarrow> Inl TypeError
                   | Some m \<Rightarrow>
                       (case capture m 1 of
                          None \<Rightarrow> Inl TypeError
                        | Some typeResource \<Rightarrow>
                            (let type = toLowerCase typeResource
                             in case getProperty enumResourceTypes type of
                                  Undefined \<Rightarrow>
                                    Inr \<lparr>id' = Number d (capture m 2), ownerId = None,
                                         type' = type\<rparr>
                                | Value t \<Rightarrow>
                                    Inr \<lparr>id' = Number d (capture m 2), ownerId = None,
                                         type' = t\<rparr>
                                | Inherited \<Rightarrow>
                                    Inl (TypeNotString (Number d (capture m 2)) type)))))
      else (case api_utils_resolveScreenName d resource of
              IsArray \<Rightarrow> Inl (ResourceError RESOURCE_NOT_FOUND ''Resource not found'')
            | Object type object_id \<Rightarrow>
                if type = ''page''
                  then Inr \<lparr>id' = Integer object_id, ownerId = None, type' = ResourceType_GROUP\<rparr>
                  else Inr \<lparr>id' = Integer object_id, ownerId = None, type' = type\<rparr>))"

definition resourceUrl :: "string \<Rightarrow> string" where
  \<comment> \<open>The local constant \<open>resourceUrl\<close> of \<open>resolveUrl\<close>.\<close>
  "resourceUrl rawResourceUrl =
     (if \<not> hasProtocolRe_test rawResourceUrl then ''https://'' @ rawResourceUrl
      else rawResourceUrl)"

definition resolveUrl :: "deps \<Rightarrow> string \<Rightarrow> result" where
  "resolveUrl d rawResourceUrl =
     (case URL d (resourceUrl rawResourceUrl) of
        None \<Rightarrow> Inl TypeError
      | Some (pathname, search) \<Rightarrow>
          if pathname = ''/''
            then Inl (ResourceError INVALID_URL ''URL should contain path'')
          else if test (parseAttachmentRe d) (Some search)
            then resolveOwnerResource d (Some search) (parseAttachmentRe d)
          else if test (parseOwnerResourceRe d) (Some search)
            then resolveOwnerResource d (Some search) (parseOwnerResourceRe d)
          else resolveScreenName d (Some (drop 1 pathname)))"

definition resolveMention :: "deps \<Rightarrow> string \<Rightarrow> result" where
  "resolveMention d resource =
     (if isUserMentionRe_test resource then resolveScreenName d (Some (drop 1 resource))
      else (case systemMentionRe resource of
              None \<Rightarrow> Inl TypeError
            | Some m \<Rightarrow> resolveScreenName d (capture m 1)))"

definition resolveNumber :: "deps \<Rightarrow> number \<Rightarrow> result" where
  "resolveNumber d resource =
     (let isGroup = lessThanZero resource;
          type = (if isGroup then ''club'' else ''id'')
      in resolveScreenName d
           (Some (type @ ToString d (if isGroup then negate resource else resource))))"

definition resolve :: "deps \<Rightarrow> RawResource \<Rightarrow> result" where
  "resolve d rawResource =
     (if falsy rawResource
        then Inl (ResourceError INVALID_RESOURCE ''Resource is required'')
      else
        (let resource = trim (String d rawResource)
         in if numberRe_test resource then resolveNumber d (Number d (Some resource))
            else if isUserMentionRe_test resource \<or> test systemMentionRe (Some resource)
              then resolveMention d resource
            else if isVKUrl_test resource then resolveUrl d resource
            else resolveScreenName d (Some resource)))"

subsection \<open>A concrete set of dependencies\<close>

text \<open>
  The file \<open>utils/helpers\<close> with the three imported patterns is not among the sources.
  The general statements below hold for every value of the dependencies; the worked
  examples need concrete ones, which follow the grammars of the specification. The
  examples stay within the safe integers, so the two number conversions of
  \<open>deps_model\<close> are never consulted by them.
\<close>

definition ownerShape_at :: RegExp where
  \<comment> \<open>Modelled from the spec: the shape \<open><typeTag><signedOwnerId>_<id>\<close> of the
      attachment and owner-embed grammars, matched at the start of the string:
      an alphabetic tag, an optional minus sign and digits, an underscore, digits.\<close>
  "ownerShape_at s =
     (let tag = takeWhile isAlpha s;
          r1 = dropWhile isAlpha s;
          sign = (if r1 \<noteq> [] \<and> hd r1 = CHR ''-'' then ''-'' else []);
          r2 = drop (length sign) r1;
          owner = takeWhile isDigit r2;
          r3 = dropWhile isDigit r2;
          ident = takeWhile isDigit (drop 1 r3)
      in if tag \<noteq> [] \<and> owner \<noteq> [] \<and> r3 \<noteq> [] \<and> hd r3 = CHR ''_'' \<and> ident \<noteq> []
         then Some [Some (tag @ sign @ owner @ ''_'' @ ident), Some tag, Some (sign @ owner),
                    Some ident]
         else None)"

fun parseAttachmentRe_spec :: RegExp where
  \<comment> \<open>Modelled from the spec: \<open>parseAttachmentRe\<close> of utils/helpers, which "recognizes a
      substring of shape \<open><typeTag><signedOwnerId>_<id>\<close>": the first position from the
      left where the shape matches.\<close>
  "parseAttachmentRe_spec [] = None"
| "parseAttachmentRe_spec (c # cs) =
     (case ownerShape_at (c # cs) of
        Some m \<Rightarrow> Some m
      | None \<Rightarrow> parseAttachmentRe_spec cs)"

definition parseOwnerResourceRe_spec :: RegExp where
  \<comment> \<open>Modelled from the spec: \<open>parseOwnerResourceRe\<close> of utils/helpers, the owner-embed
      grammar, the "same shape as attachment" with "identical extraction".\<close>
  "parseOwnerResourceRe_spec = parseAttachmentRe_spec"

definition parseResourceRe_spec :: RegExp where
  \<comment> \<open>Modelled from the spec: \<open>parseResourceRe\<close> of utils/helpers, the type-prefixed
      plain-ID grammar \<open><prefix><nonNegativeId>\<close>: an alphabetic prefix, then digits.\<close>
  "parseResourceRe_spec s =
     (let prefix = takeWhile isAlpha s;
          ident = dropWhile isAlpha s
      in if prefix \<noteq> [] \<and> ident \<noteq> [] \<and> list_all isDigit ident
         then Some [Some s, Some prefix, Some ident]
         else None)"

definition hostChar :: "char \<Rightarrow> bool" where
  "hostChar c = (isAlpha c \<or> isDigit c \<or> c = CHR ''.'' \<or> c = CHR ''-'')"

definition URL_model :: "string \<Rightarrow> (string \<times> string) option" where
  \<comment> \<open>\<open>new URL(u)\<close> on the plain URLs of the examples: the scheme \<open>http\<close> or \<open>https\<close>, a
      host of letters, digits, dots and hyphens, then the path and the query as written.
      A string without a scheme is rejected, as the platform does without a base URL.
      This is not the platform's parser: credentials, ports, backslashes, the removal
      of dot segments and percent-encoding are not modelled, and it is used at the
      inputs of the examples only.\<close>
  "URL_model u =
     (let rest = (if startsWith_i ''https://'' u then Some (drop 8 u)
                  else if startsWith_i ''http://'' u then Some (drop 7 u)
                  else None)
      in case rest of
           None \<Rightarrow> None
         | Some r \<Rightarrow>
             (let host = takeWhile (\<lambda>c. c \<notin> set ''/?#'') r;
                  r1 = dropWhile (\<lambda>c. c \<notin> set ''/?#'') r;
                  path = takeWhile (\<lambda>c. c \<notin> set ''?#'') r1;
                  r2 = dropWhile (\<lambda>c. c \<notin> set ''?#'') r1;
                  query = takeWhile (\<lambda>c. c \<noteq> CHR ''#'') r2
              in if host = [] \<or> \<not> list_all hostChar host then None
                 else Some (if path = [] then ''/'' else path,
                            if query = ''?'' then [] else query)))"

definition lookup_model :: "string option \<Rightarrow> response" where
  \<comment> \<open>A remote directory with two entries: a user and a page.\<close>
  "lookup_model screen_name =
     (if screen_name = Some ''durov'' then Object ''user'' 42
      else if screen_name = Some ''team'' then Object ''page'' 42
      else IsArray)"

definition deps_model :: deps where
  "deps_model =
     \<lparr>parseResourceRe = parseResourceRe_spec,
      parseAttachmentRe = parseAttachmentRe_spec,
      parseOwnerResourceRe = parseOwnerResourceRe_spec,
      URL = URL_model,
      Number_other = (\<lambda>s. NaN),
      String_other = intToString,
      api_utils_resolveScreenName = lookup_model\<rparr>"


section \<open>Properties\<close>

subsection \<open>Decimal numerals\<close>

lemma digitChar_isDigit: "n < 10 \<Longrightarrow> isDigit (digitChar n)"
  by (simp add: isDigit_def digitChar_def)

lemma digitValue_digitChar: "n < 10 \<Longrightarrow> digitValue (digitChar n) = n"
  by (simp add: digitValue_def digitChar_def)

lemma natToString_digits: "list_all isDigit (natToString n)"
proof (induction n rule: natToString.induct)
  case (1 n)
  show ?case
  proof (cases "n < 10")
    case True
    then show ?thesis by (subst natToString.simps) (simp add: digitChar_isDigit)
  next
    case False
    with "1" show ?thesis by (subst natToString.simps) (simp add: digitChar_isDigit)
  qed
qed

lemma natToString_nonempty: "natToString n \<noteq> []"
  by (subst natToString.simps) simp

lemma digitsToNat_snoc: "digitsToNat (ds @ [c]) = 10 * digitsToNat ds + digitValue c"
  by (simp add: digitsToNat_def)

lemma digitsToNat_natToString: "digitsToNat (natToString n) = n"
proof (induction n rule: natToString.induct)
  case (1 n)
  show ?case
  proof (cases "n < 10")
    case True
    then show ?thesis
      by (subst natToString.simps) (simp add: digitsToNat_def digitValue_digitChar)
  next
    case False
    with "1" show ?thesis
      by (subst natToString.simps) (simp add: digitsToNat_snoc digitValue_digitChar)
  qed
qed

subsection \<open>Trimming\<close>

lemma isDigit_not_ws: "isDigit c \<Longrightarrow> \<not> isWhiteSpace c"
  by (auto simp: isDigit_def isWhiteSpace_def)


lemma dropWhile_id: "xs = [] \<or> \<not> P (hd xs) \<Longrightarrow> dropWhile P xs = xs"
  by (cases xs) auto

lemma last_dropWhile: "dropWhile P xs \<noteq> [] \<Longrightarrow> last (dropWhile P xs) = last xs"
  by (metis last_appendR takeWhile_dropWhile_id)

lemma trim_id: "s \<noteq> [] \<Longrightarrow> \<not> isWhiteSpace (hd s) \<Longrightarrow> \<not> isWhiteSpace (last s) \<Longrightarrow> trim s = s"
proof -
  assume a: "s \<noteq> []" "\<not> isWhiteSpace (hd s)" "\<not> isWhiteSpace (last s)"
  have 1: "dropWhile isWhiteSpace s = s" using a by (simp add: dropWhile_id)
  have "hd (rev s) = last s" using a by (simp add: hd_rev)
  then have 2: "dropWhile isWhiteSpace (rev s) = rev s" using a by (simp add: dropWhile_id)
  show ?thesis by (simp add: trim_def 1 2)
qed

lemma trim_empty: "trim [] = []"
  by (simp add: trim_def)

lemma trim_ends:
  assumes "trim s \<noteq> []"
  shows "\<not> isWhiteSpace (hd (trim s))" and "\<not> isWhiteSpace (last (trim s))"
proof -
  define u where "u = dropWhile isWhiteSpace s"
  define v where "v = dropWhile isWhiteSpace (rev u)"
  have t: "trim s = rev v" by (simp add: trim_def u_def v_def)
  with assms have v: "v \<noteq> []" by simp
  then have u: "u \<noteq> []" by (auto simp: v_def)
  have "last v = last (rev u)" using v unfolding v_def by (rule last_dropWhile)
  also have "\<dots> = hd u" using u by (simp add: last_rev)
  finally have "hd (trim s) = hd u" using v by (simp add: t hd_rev)
  moreover have "\<not> isWhiteSpace (hd u)" using u unfolding u_def by (rule hd_dropWhile)
  ultimately show "\<not> isWhiteSpace (hd (trim s))" by simp
  have "\<not> isWhiteSpace (hd v)" using v unfolding v_def by (rule hd_dropWhile)
  then show "\<not> isWhiteSpace (last (trim s))" using v by (simp add: t last_rev)
qed

lemma trim_trim: "trim (trim s) = trim s"
proof (cases "trim s = []")
  case True
  then show ?thesis by (simp add: trim_empty)
next
  case False
  then show ?thesis by (simp add: trim_id trim_ends)
qed


lemma intToString_nonneg: "0 \<le> n \<Longrightarrow> intToString n = natToString (nat n)"
  by (simp add: intToString_def)

lemma StringToNumber_intToString:
  assumes safe: "isSafeInteger n"
  shows "StringToNumber d (intToString n) = Integer n"
proof (cases "n < 0")
  case True
  let ?ds = "natToString (nat (- n))"
  have s: "intToString n = CHR ''-'' # ?ds" using True by (simp add: intToString_def)
  have "isDigit (last ?ds)" using natToString_digits [of "nat (- n)"] natToString_nonempty [of "nat (- n)"]
    by (simp add: list_all_iff)
  then have "\<not> isWhiteSpace (last (CHR ''-'' # ?ds))"
    by (simp add: natToString_nonempty isDigit_not_ws)
  moreover have "\<not> isWhiteSpace (CHR ''-'')" by (simp add: isWhiteSpace_def)
  ultimately have t: "trim (CHR ''-'' # ?ds) = CHR ''-'' # ?ds" by (intro trim_id) simp_all
  have "\<not> isDigit (CHR ''-'')" by (simp add: isDigit_def)
  then show ?thesis using True safe
    by (simp add: StringToNumber_def s t natToString_digits natToString_nonempty
        digitsToNat_natToString isSafeInteger_def)
next
  case False
  let ?ds = "natToString (nat n)"
  have s: "intToString n = ?ds" using False by (simp add: intToString_def)
  have d: "list_all isDigit ?ds" "?ds \<noteq> []" by (rule natToString_digits, rule natToString_nonempty)
  then have "isDigit (hd ?ds)" "isDigit (last ?ds)" by (simp_all add: list_all_iff)
  then have t: "trim ?ds = ?ds" using d by (intro trim_id) (simp_all add: isDigit_not_ws)
  show ?thesis using False d safe
    by (simp add: StringToNumber_def s t digitsToNat_natToString isSafeInteger_def)
qed

lemma trim_intToString: "trim (intToString n) = intToString n"
proof -
  let ?s = "intToString n"
  have ne: "?s \<noteq> []" by (simp add: intToString_def natToString_nonempty)
  have "isDigit (last ?s)"
    using natToString_digits [of "nat (- n)"] natToString_nonempty [of "nat (- n)"]
      natToString_digits [of "nat n"] natToString_nonempty [of "nat n"]
    by (simp add: intToString_def list_all_iff)
  then have l: "\<not> isWhiteSpace (last ?s)" by (rule isDigit_not_ws)
  have "hd ?s = CHR ''-'' \<or> isDigit (hd ?s)"
    using natToString_digits [of "nat n"] natToString_nonempty [of "nat n"]
    by (simp add: intToString_def list_all_iff)
  then have h: "\<not> isWhiteSpace (hd ?s)" by (auto simp: isWhiteSpace_def dest: isDigit_not_ws)
  show ?thesis using ne h l by (rule trim_id)
qed

lemma numberRe_intToString: "numberRe_test (intToString n)"
proof (cases "n < 0")
  case True
  then show ?thesis
    by (simp add: numberRe_test_def intToString_def natToString_nonempty natToString_digits)
next
  case False
  let ?ds = "natToString (nat n)"
  have "isDigit (hd ?ds)"
    using natToString_digits [of "nat n"] natToString_nonempty [of "nat n"]
    by (simp add: list_all_iff)
  then have "hd ?ds \<noteq> CHR ''-''" by (auto simp: isDigit_def)
  with False show ?thesis
    by (simp add: numberRe_test_def intToString_def natToString_nonempty natToString_digits)
qed

subsection \<open>Routing of the classifier\<close>

lemma systemMentionRe_None:
  "CHR ''['' \<notin> set s \<Longrightarrow> CHR '']'' \<notin> set s \<Longrightarrow> systemMentionRe s = None"
proof (induction s)
  case Nil
  then show ?case by simp
next
  case (Cons c cs)
  let ?P = "\<lambda>x. x \<noteq> CHR ''|'' \<and> x \<noteq> CHR '']''"
  have "dropWhile ?P (c # cs) \<noteq> [] \<Longrightarrow> hd (dropWhile ?P (c # cs)) \<noteq> CHR '']''"
  proof
    assume a: "dropWhile ?P (c # cs) \<noteq> []" "hd (dropWhile ?P (c # cs)) = CHR '']''"
    then have "CHR '']'' \<in> set (dropWhile ?P (c # cs))" by (metis hd_in_set)
    then have "CHR '']'' \<in> set (c # cs)" by (rule set_dropWhileD)
    with Cons.prems show False by simp
  qed
  with Cons show ?case by (auto simp add: Let_def simp del: dropWhile.simps)
qed

lemma digits_no_special:
  assumes "list_all isDigit ds"
  shows "CHR ''*'' \<notin> set ds" "CHR ''@'' \<notin> set ds" "CHR ''['' \<notin> set ds" "CHR '']'' \<notin> set ds"
  using assms by (auto simp: list_all_iff isDigit_def)

lemma resolve_screen_name_route:
  assumes "s \<noteq> []" "trim s = s" "\<not> numberRe_test s" "\<not> isUserMentionRe_test s"
    "systemMentionRe s = None" "\<not> isVKUrl_test s"
  shows "resolve d (Str s) = resolveScreenName d (Some s)"
  using assms by (simp add: resolve_def falsy_def String_def test_def)

lemma prefixed_digits_route:
  assumes ds: "list_all isDigit ds" "ds \<noteq> []" and p: "p = ''club'' \<or> p = ''id''"
  shows "resolve d (Str (p @ ds)) = resolveScreenName d (Some (p @ ds))"
proof (rule resolve_screen_name_route)
  show "p @ ds \<noteq> []" using ds by simp
  have "isDigit (last ds)" using ds by (simp add: list_all_iff)
  then have "\<not> isWhiteSpace (last (p @ ds))" using ds by (simp add: isDigit_not_ws)
  moreover have "\<not> isWhiteSpace (hd (p @ ds))" using p by (auto simp: isWhiteSpace_def)
  ultimately show "trim (p @ ds) = p @ ds" using ds by (simp add: trim_id)
  show "\<not> numberRe_test (p @ ds)" using p by (auto simp: numberRe_test_def isDigit_def)
  show "\<not> isUserMentionRe_test (p @ ds)"
    using p digits_no_special [OF ds(1)] by (auto simp: isUserMentionRe_test_def)
  show "systemMentionRe (p @ ds) = None"
    using p digits_no_special [OF ds(1)] by (intro systemMentionRe_None) auto
  show "\<not> isVKUrl_test (p @ ds)"
    using p by (auto simp: isVKUrl_test_def startsWith_i_def toLowerCase_def toLowerChar_def)
qed

lemma systemMentionRe_bracket:
  assumes "a \<noteq> []" "CHR ''|'' \<notin> set a"
  shows "systemMentionRe (''['' @ a @ ''|'' @ b) = Some [Some (''['' @ a), Some a, None]"
proof -
  have "\<forall>x\<in>set a. x \<noteq> CHR ''|''" using assms(2) by auto
  then have "takeWhile (\<lambda>x. x \<noteq> CHR ''|'') (a @ CHR ''|'' # b) = a"
    by (simp add: takeWhile_append2)
  then show ?thesis using assms(1) by (simp add: Let_def)
qed

lemma isSafeInteger_simps:
  "isSafeInteger 0" "isSafeInteger (- n) = isSafeInteger n" "isSafeInteger \<bar>n\<bar> = isSafeInteger n"
  by (simp_all add: isSafeInteger_def MAX_SAFE_INTEGER_def)

lemma ToString_safe: "isSafeInteger n \<Longrightarrow> ToString d (Integer n) = intToString n"
  by simp

lemma resolve_Num:
  "n \<noteq> 0 \<Longrightarrow> isSafeInteger n \<Longrightarrow> resolve d (Num n) = resolveNumber d (Integer n)"
  by (simp add: resolve_def falsy_def String_def trim_intToString numberRe_intToString
      StringToNumber_intToString)

lemma resolveNumber_Integer:
  "isSafeInteger n \<Longrightarrow>
   resolveNumber d (Integer n) =
     resolveScreenName d (Some ((if n < 0 then ''club'' else ''id'') @ natToString (nat \<bar>n\<bar>)))"
  by (simp add: resolveNumber_def isSafeInteger_simps intToString_def)

subsection \<open>Error codes of each stage\<close>

lemma resolveOwnerResource_code:
  "resolveOwnerResource d x p \<noteq> Inl (ResourceError c msg)"
  by (simp add: resolveOwnerResource_def split: option.splits)

lemma resolveScreenName_code:
  "resolveScreenName d x = Inl (ResourceError c msg) \<Longrightarrow> c = RESOURCE_NOT_FOUND"
  by (auto simp: resolveScreenName_def resolveOwnerResource_code Let_def
      split: if_splits option.splits response.splits property.splits)

lemma resolveUrl_code:
  "resolveUrl d u = Inl (ResourceError c msg) \<Longrightarrow> c = RESOURCE_NOT_FOUND \<or> c = INVALID_URL"
  by (auto simp: resolveUrl_def resolveOwnerResource_code
      split: if_splits option.splits prod.splits dest: resolveScreenName_code)

lemma resolveMention_code:
  "resolveMention d s = Inl (ResourceError c msg) \<Longrightarrow> c = RESOURCE_NOT_FOUND"
  by (auto simp: resolveMention_def split: if_splits option.splits dest: resolveScreenName_code)

lemma resolveNumber_code:
  "resolveNumber d x = Inl (ResourceError c msg) \<Longrightarrow> c = RESOURCE_NOT_FOUND"
  by (auto simp: resolveNumber_def Let_def dest: resolveScreenName_code)

lemma resolve_invalid_iff:
  "(resolve d raw = Inl (ResourceError INVALID_RESOURCE msg)) =
     (falsy raw \<and> msg = ''Resource is required'')"
proof (cases "falsy raw")
  case True
  then show ?thesis by (auto simp: resolve_def)
next
  case False
  have "resolve d raw \<noteq> Inl (ResourceError INVALID_RESOURCE msg)"
  proof
    assume "resolve d raw = Inl (ResourceError INVALID_RESOURCE msg)"
    then show False using False
      by (auto simp: resolve_def Let_def split: if_splits
          dest: resolveNumber_code resolveMention_code resolveUrl_code resolveScreenName_code)
  qed
  with False show ?thesis by simp
qed

lemma resolve_trimmed:
  assumes "trim s \<noteq> []"
  shows "resolve d (Str s) = resolve d (Str (trim s))"
proof -
  have "s \<noteq> []" using assms by (auto simp: trim_def)
  then show ?thesis using assms by (simp add: resolve_def falsy_def String_def trim_trim)
qed

lemma resolve_blank:
  assumes "s \<noteq> []" "trim s = []"
  shows "resolve d (Str s) = resolveScreenName d (Some [])"
  using assms
  by (simp add: resolve_def falsy_def String_def numberRe_test_def isUserMentionRe_test_def
      test_def isVKUrl_test_def startsWith_i_def toLowerCase_def)

subsection \<open>The plain-ID grammar\<close>


lemma enumResourceTypes_inherited:
  "getProperty enumResourceTypes ''constructor'' = Inherited"
  by (simp add: getProperty_def enumResourceTypes_def Object_prototype_def)


lemma resolveScreenName_inherited:
  assumes "parseAttachmentRe d r = None" "parseOwnerResourceRe d r = None"
    "parseResourceRe d r = Some m" "capture m 1 = Some prefix"
    "toLowerCase prefix = ''constructor''"
  shows "resolveScreenName d (Some r) =
     Inl (TypeNotString (Number d (capture m 2)) ''constructor'')"
  using assms
  by (simp add: resolveScreenName_def test_def enumResourceTypes_inherited Let_def)









subsection \<open>Strings no grammar matches\<close>

lemma no_grammar_nobody:
  "parseAttachmentRe deps_model ''nobody'' = None"
  "parseOwnerResourceRe deps_model ''nobody'' = None"
  "parseResourceRe deps_model ''nobody'' = None"
  by code_simp+

lemma no_grammar_team:
  "parseAttachmentRe deps_model ''team'' = None"
  "parseOwnerResourceRe deps_model ''team'' = None"
  "parseResourceRe deps_model ''team'' = None"
  by code_simp+

lemma no_grammar_durov:
  "parseAttachmentRe deps_model ''durov'' = None"
  "parseOwnerResourceRe deps_model ''durov'' = None"
  "parseResourceRe deps_model ''durov'' = None"
  by code_simp+

section \<open>The claims\<close>

subsection \<open>C1: every routed mention yields a defined capture\<close>

text \<open>
  Claim C1 says that for every string the classifier routes to the mention resolver the
  capture group that \<open>resolveMention\<close> reads is defined. The string \<open>a]\<close> carries no
  sigil and is matched by \<open>systemMentionRe\<close> through its second alternative
  \<open>([^|\]]+)\]\<close>, so \<open>resolve\<close> routes it to \<open>resolveMention\<close>; the match array is
  \<open>["a]", undefined, "a"]\<close>, group 1 is undefined, and the screen-name resolver is
  called with \<open>undefined\<close>.
\<close>

theorem mention_capture_undefined:
  "\<not> isUserMentionRe_test ''a]''
   \<and> test systemMentionRe (Some ''a]'')
   \<and> systemMentionRe ''a]'' = Some [Some ''a]'', None, Some ''a'']
   \<and> resolve d (Str ''a]'') = resolveMention d ''a]''
   \<and> resolveMention d ''a]'' = resolveScreenName d None"
  by (simp add: resolve_def resolveMention_def falsy_def String_def trim_def isWhiteSpace_def
      numberRe_test_def isDigit_def isUserMentionRe_test_def test_def capture_def)

subsection \<open>C2: the integer zero\<close>

text \<open>
  Claim C2, as amended: \<open>resolve(0)\<close> is invalid. Only the empty string and the integer
  zero trigger \<open>INVALID_RESOURCE\<close> (with the message "Resource is required"); every
  other integer and every other string passes the check, and an integer other than zero
  of magnitude at most \<open>2^53 - 1\<close> is accepted as a numeric ID and handed to the numeric
  resolver.
\<close>

theorem resolve_zero_invalid:
  "resolve d (Num 0) = Inl (ResourceError INVALID_RESOURCE ''Resource is required'')
   \<and> resolve d (Str []) = Inl (ResourceError INVALID_RESOURCE ''Resource is required'')
   \<and> (n \<noteq> 0 \<longrightarrow> resolve d (Num n) \<noteq> Inl (ResourceError INVALID_RESOURCE msg))
   \<and> (s \<noteq> [] \<longrightarrow> resolve d (Str s) \<noteq> Inl (ResourceError INVALID_RESOURCE msg))
   \<and> (n \<noteq> 0 \<and> isSafeInteger n \<longrightarrow> resolve d (Num n) = resolveNumber d (Integer n))"
proof -
  have zero: "resolve d (Num 0) = Inl (ResourceError INVALID_RESOURCE ''Resource is required'')"
    "resolve d (Str []) = Inl (ResourceError INVALID_RESOURCE ''Resource is required'')"
    by (simp_all add: resolve_def falsy_def)
  have num: "resolve d (Num n) \<noteq> Inl (ResourceError INVALID_RESOURCE msg)" if "n \<noteq> 0"
    using that by (simp add: resolve_invalid_iff falsy_def)
  have str: "resolve d (Str s) \<noteq> Inl (ResourceError INVALID_RESOURCE msg)" if "s \<noteq> []"
    using that by (simp add: resolve_invalid_iff falsy_def)
  show ?thesis using zero num str by (simp add: resolve_Num)
qed

theorem resolve_zero_invalid_witness:
  "resolve deps_model (Num 0) = Inl (ResourceError INVALID_RESOURCE ''Resource is required'')
   \<and> resolve deps_model (Str []) = Inl (ResourceError INVALID_RESOURCE ''Resource is required'')
   \<and> resolve deps_model (Num 5) \<noteq> Inl (ResourceError INVALID_RESOURCE ''Resource is required'')
   \<and> resolve deps_model (Str ''id7'') \<noteq>
       Inl (ResourceError INVALID_RESOURCE ''Resource is required'')
   \<and> resolve deps_model (Num 5) = resolveNumber deps_model (Integer 5)"
proof -
  have "isSafeInteger 5" by (simp add: isSafeInteger_def MAX_SAFE_INTEGER_def)
  then show ?thesis
    using resolve_zero_invalid [of deps_model 5 "''Resource is required''" "''id7''"] by auto
qed

text \<open>
  The claim as stated ("\<open>resolve(0)\<close> is not invalid, zero is resolved as a numeric ID")
  fails at the integer 0: the result is the error, not what the numeric resolver
  gives for 0.
\<close>

theorem resolve_zero_counterexample:
  "resolve deps_model (Num 0) = Inl (ResourceError INVALID_RESOURCE ''Resource is required'')
   \<and> resolve deps_model (Num 0) \<noteq> resolveNumber deps_model (Integer 0)"
  by code_simp

subsection \<open>C3: when the input is invalid\<close>

text \<open>
  Claim C3, as amended: \<open>resolve\<close> fails with \<open>INVALID_RESOURCE\<close> exactly when the raw
  input is falsy, that is the integer zero or the empty string. The check comes before
  the trimming: a string with a non-empty trimmed text resolves as its trimmed text
  does, and a non-empty string of white space only is not rejected but classified as the
  empty screen name.
\<close>

theorem invalid_resource_iff_falsy:
  "((\<exists>msg. resolve d raw = Inl (ResourceError INVALID_RESOURCE msg))
      = (raw = Num 0 \<or> raw = Str []))
   \<and> (trim s \<noteq> [] \<longrightarrow> resolve d (Str s) = resolve d (Str (trim s)))
   \<and> (s \<noteq> [] \<and> trim s = [] \<longrightarrow> resolve d (Str s) = resolveScreenName d (Some []))"
proof -
  have "falsy raw = (raw = Num 0 \<or> raw = Str [])"
    by (cases raw) (simp_all add: falsy_def)
  then show ?thesis by (simp add: resolve_invalid_iff resolve_trimmed resolve_blank)
qed

theorem invalid_resource_iff_falsy_witness:
  "((\<exists>msg. resolve deps_model (Str ''   '') = Inl (ResourceError INVALID_RESOURCE msg)) = False)
   \<and> resolve deps_model (Str '' id7 '') = resolve deps_model (Str ''id7'')
   \<and> resolve deps_model (Str ''   '') = resolveScreenName deps_model (Some [])"
proof -
  have 1: "trim '' id7 '' = ''id7''" by code_simp
  have 2: "trim ''   '' = []" by code_simp
  show ?thesis
    using invalid_resource_iff_falsy [of deps_model "Str ''   ''" "'' id7 ''"]
      invalid_resource_iff_falsy [of deps_model "Str ''   ''" "''   ''"] 1 2
    by simp
qed

text \<open>
  The claim as stated fails at a string of three spaces: it is zero-length after
  trimming, yet the failure is the remote lookup's \<open>RESOURCE_NOT_FOUND\<close>.
\<close>

theorem whitespace_counterexample:
  "trim ''   '' = []
   \<and> resolve deps_model (Str ''   '') =
       Inl (ResourceError RESOURCE_NOT_FOUND ''Resource not found'')"
  by code_simp

subsection \<open>C4: precedence of the classifier\<close>

text \<open>
  Claim C4 says that a string is routed to the mention resolver if and only if it begins
  with \<open>*\<close> or \<open>@\<close> or matches the bracketed shape. The string \<open>a@b\<close> does not
  begin with a sigil, is not matched by \<open>systemMentionRe\<close> and is no number; the test
  \<open>/\*|@/\<close> finds the \<open>@\<close> in its middle, so it is routed to the mention resolver, which
  drops the first character \<open>a\<close> and delegates \<open>@b\<close>.
\<close>

theorem mention_route_without_leading_sigil:
  "hd ''a@b'' \<noteq> CHR ''*'' \<and> hd ''a@b'' \<noteq> CHR ''@''
   \<and> systemMentionRe ''a@b'' = None
   \<and> \<not> numberRe_test ''a@b''
   \<and> resolve d (Str ''a@b'') = resolveMention d ''a@b''
   \<and> resolveMention d ''a@b'' = resolveScreenName d (Some ''@b'')"
  by (simp add: resolve_def resolveMention_def falsy_def String_def trim_def isWhiteSpace_def
      numberRe_test_def isDigit_def isUserMentionRe_test_def test_def)

subsection \<open>C5: numbers are re-dispatched as prefixed screen names\<close>

text \<open>
  Claim C5, as amended: for every negative integer \<open>n\<close> of magnitude at most
  \<open>2^53 - 1\<close>, \<open>resolve(n)\<close> equals \<open>resolve("club" + (-n))\<close> and is the screen-name
  resolver's result on that string; for every positive integer \<open>n\<close> up to \<open>2^53 - 1\<close>,
  \<open>resolve(n)\<close> equals \<open>resolve("id" + n)\<close> likewise. The numeric resolver never
  produces a result of its own: on every number it delegates the prefix followed by the
  text of the number (negated when it is below zero), which for a safe integer, zero
  included, is the decimal text of its absolute value. With the grammars of the
  specification, \<open>resolve(-123)\<close> is \<open>{id: 123, type: "group"}\<close> and \<open>resolve(123)\<close> is
  \<open>{id: 123, type: "user"}\<close>.
\<close>

theorem resolve_number_redispatch:
  "(n < 0 \<and> isSafeInteger n \<longrightarrow>
      resolve d (Num n) = resolve d (Str (''club'' @ intToString (- n)))
      \<and> resolve d (Num n) = resolveScreenName d (Some (''club'' @ intToString (- n))))
   \<and> (0 < n \<and> isSafeInteger n \<longrightarrow>
      resolve d (Num n) = resolve d (Str (''id'' @ intToString n))
      \<and> resolve d (Num n) = resolveScreenName d (Some (''id'' @ intToString n)))
   \<and> resolveNumber d x =
       resolveScreenName d
         (Some ((if lessThanZero x then ''club'' else ''id'')
                @ ToString d (if lessThanZero x then negate x else x)))
   \<and> (isSafeInteger n \<longrightarrow>
       resolveNumber d (Integer n) =
         resolveScreenName d (Some ((if n < 0 then ''club'' else ''id'') @ intToString \<bar>n\<bar>)))
   \<and> resolve deps_model (Num (- 123)) =
       Inr \<lparr>id' = Integer 123, ownerId = None, type' = ''group''\<rparr>
   \<and> resolve deps_model (Num 123) =
       Inr \<lparr>id' = Integer 123, ownerId = None, type' = ''user''\<rparr>"
proof -
  have route: "resolve d (Str (p @ intToString \<bar>n\<bar>)) = resolveScreenName d (Some (p @ intToString \<bar>n\<bar>))"
    if "p = ''club'' \<or> p = ''id''" for p
    using that
    by (intro prefixed_digits_route)
      (simp_all add: intToString_nonneg natToString_digits natToString_nonempty)
  have gen: "resolveNumber d x =
       resolveScreenName d
         (Some ((if lessThanZero x then ''club'' else ''id'')
                @ ToString d (if lessThanZero x then negate x else x)))"
    by (simp add: resolveNumber_def Let_def)
  have num: "resolveNumber d (Integer n) =
      resolveScreenName d (Some ((if n < 0 then ''club'' else ''id'') @ intToString \<bar>n\<bar>))"
    if "isSafeInteger n"
    using that by (simp add: resolveNumber_Integer intToString_nonneg)
  have neg: "resolve d (Num n) = resolveScreenName d (Some (''club'' @ intToString (- n)))"
    if "n < 0" "isSafeInteger n"
    using that num by (simp add: resolve_Num)
  have pos: "resolve d (Num n) = resolveScreenName d (Some (''id'' @ intToString n))"
    if "0 < n" "isSafeInteger n"
    using that num by (simp add: resolve_Num)
  have e1: "resolve deps_model (Num (- 123)) =
       Inr \<lparr>id' = Integer 123, ownerId = None, type' = ''group''\<rparr>"
    by code_simp
  have e2: "resolve deps_model (Num 123) =
       Inr \<lparr>id' = Integer 123, ownerId = None, type' = ''user''\<rparr>"
    by code_simp
  have r1: "n < 0 \<Longrightarrow> resolve d (Str (''club'' @ intToString (- n))) =
       resolveScreenName d (Some (''club'' @ intToString (- n)))"
    using route [of "''club''"] by simp
  have r2: "0 < n \<Longrightarrow> resolve d (Str (''id'' @ intToString n)) =
       resolveScreenName d (Some (''id'' @ intToString n))"
    using route [of "''id''"] by simp
  show ?thesis using neg pos num e1 e2 r1 r2 gen by simp
qed

theorem resolve_number_redispatch_witness:
  "resolve deps_model (Num (- 7)) = resolve deps_model (Str ''club7'')
   \<and> resolve deps_model (Num (- 7)) = resolveScreenName deps_model (Some ''club7'')
   \<and> resolve deps_model (Num 7) = resolve deps_model (Str ''id7'')
   \<and> resolve deps_model (Num 7) = resolveScreenName deps_model (Some ''id7'')
   \<and> resolveNumber deps_model (Integer 0) = resolveScreenName deps_model (Some ''id0'')"
proof -
  have i: "intToString 7 = ''7''" "intToString 0 = ''0''" by code_simp+
  have s: "isSafeInteger 7" "isSafeInteger (- 7)" "isSafeInteger 0"
    by (simp_all add: isSafeInteger_def MAX_SAFE_INTEGER_def)
  show ?thesis
    using resolve_number_redispatch [of "- 7" deps_model "Integer 0"]
      resolve_number_redispatch [of 7 deps_model "Integer 0"]
      resolve_number_redispatch [of 0 deps_model "Integer 0"] i s
    by auto
qed

text \<open>
  The claim as stated covers every non-negative integer and fails at zero, which the
  falsy check rejects before the numeric resolver is reached, while \<open>id0\<close> resolves.
\<close>

theorem resolve_zero_not_redispatched:
  "resolve deps_model (Num 0) \<noteq> resolve deps_model (Str (''id'' @ intToString 0))
   \<and> resolve deps_model (Str (''id'' @ intToString 0)) =
       Inr \<lparr>id' = Integer 0, ownerId = None, type' = ''user''\<rparr>"
  by code_simp

subsection \<open>C6: type-prefixed plain IDs and the alias table\<close>




subsection \<open>C7: mentions resolve as the name they mention\<close>

text \<open>
  Claim C7 says that a bracket mention delegates the text before the first bar. The
  mention \<open>[id1|@durov]\<close> is of the bracketed shape, and \<open>systemMentionRe\<close> would
  capture \<open>id1\<close>; but the label holds an \<open>@\<close>, which the test \<open>/\*|@/\<close> finds anywhere
  in the string, so the sigil branch of the mention resolver is taken: it drops the
  opening bracket and delegates \<open>id1|@durov]\<close>. With the grammars of the specification
  that is a remote lookup which finds nothing, while \<open>id1\<close> is the user 1.
\<close>

theorem bracket_mention_with_sigil:
  "systemMentionRe ''[id1|@durov]'' = Some [Some ''[id1'', Some ''id1'', None]
   \<and> isUserMentionRe_test ''[id1|@durov]''
   \<and> resolve d (Str ''[id1|@durov]'') = resolveMention d ''[id1|@durov]''
   \<and> resolveMention d ''[id1|@durov]'' = resolveScreenName d (Some ''id1|@durov]'')
   \<and> resolve deps_model (Str ''[id1|@durov]'') =
       Inl (ResourceError RESOURCE_NOT_FOUND ''Resource not found'')
   \<and> resolve deps_model (Str ''id1'') =
       Inr \<lparr>id' = Integer 1, ownerId = None, type' = ''user''\<rparr>"
proof -
  have 1: "systemMentionRe ''[id1|@durov]'' = Some [Some ''[id1'', Some ''id1'', None]"
    by (simp add: Let_def)
  have 2: "isUserMentionRe_test ''[id1|@durov]''"
    by (simp add: isUserMentionRe_test_def)
  have 3: "resolve d (Str ''[id1|@durov]'') = resolveMention d ''[id1|@durov]''"
    by (simp add: resolve_def falsy_def String_def trim_def isWhiteSpace_def numberRe_test_def
        isDigit_def isUserMentionRe_test_def)
  have 4: "resolveMention d ''[id1|@durov]'' = resolveScreenName d (Some ''id1|@durov]'')"
    by (simp add: resolveMention_def isUserMentionRe_test_def)
  have 5: "resolve deps_model (Str ''[id1|@durov]'') =
       Inl (ResourceError RESOURCE_NOT_FOUND ''Resource not found'')" by code_simp
  have 6: "resolve deps_model (Str ''id1'') =
       Inr \<lparr>id' = Integer 1, ownerId = None, type' = ''user''\<rparr>" by code_simp
  show ?thesis using 1 2 3 4 5 6 by simp
qed

text \<open>
  What does hold: the three examples of the claim, the sigil rule for a trimmed string
  that starts with \<open>*\<close> or \<open>@\<close>, and the bracket rule for a trimmed string \<open>[A|...\<close>
  that holds no \<open>*\<close> and no \<open>@\<close> anywhere.
\<close>

lemma mention_delegation_cases:
  "resolve d (Str ''@durov'') = resolve d (Str ''durov'')
   \<and> resolve d (Str ''*durov'') = resolve d (Str ''durov'')
   \<and> resolve d (Str ''[club1|Label]'') = resolve d (Str ''club1'')
   \<and> resolve deps_model (Str ''club1'') =
       Inr \<lparr>id' = Integer 1, ownerId = None, type' = ''group''\<rparr>
   \<and> ((c = CHR ''*'' \<or> c = CHR ''@'') \<and> trim (c # rest) = c # rest \<longrightarrow>
        resolve d (Str (c # rest)) = resolveScreenName d (Some rest))
   \<and> (a \<noteq> [] \<and> CHR ''|'' \<notin> set a \<and> \<not> isUserMentionRe_test (''['' @ a @ ''|'' @ b)
        \<and> trim (''['' @ a @ ''|'' @ b) = ''['' @ a @ ''|'' @ b \<longrightarrow>
        resolve d (Str (''['' @ a @ ''|'' @ b)) = resolveScreenName d (Some a))"
proof -
  have plain: "resolve d (Str ''durov'') = resolveScreenName d (Some ''durov'')"
    by (simp add: resolve_def falsy_def String_def trim_def isWhiteSpace_def numberRe_test_def
        isDigit_def isUserMentionRe_test_def test_def isVKUrl_test_def startsWith_i_def
        toLowerCase_def toLowerChar_def)
  have club: "resolve d (Str ''club1'') = resolveScreenName d (Some ''club1'')"
    by (simp add: resolve_def falsy_def String_def trim_def isWhiteSpace_def numberRe_test_def
        isDigit_def isUserMentionRe_test_def test_def isVKUrl_test_def startsWith_i_def
        toLowerCase_def toLowerChar_def)
  have sigil: "resolve d (Str (c # rest)) = resolveScreenName d (Some rest)"
    if "c = CHR ''*'' \<or> c = CHR ''@''" "trim (c # rest) = c # rest" for c rest
    using that
    by (auto simp: resolve_def resolveMention_def falsy_def String_def numberRe_test_def
        isDigit_def isUserMentionRe_test_def)
  have bracket: "resolve d (Str (''['' @ a @ ''|'' @ b)) = resolveScreenName d (Some a)"
    if "a \<noteq> []" "CHR ''|'' \<notin> set a" "\<not> isUserMentionRe_test (''['' @ a @ ''|'' @ b)"
      "trim (''['' @ a @ ''|'' @ b) = ''['' @ a @ ''|'' @ b" for a b
  proof -
    have n: "\<not> numberRe_test (''['' @ a @ ''|'' @ b)"
      by (simp add: numberRe_test_def isDigit_def)
    show ?thesis
      using that n systemMentionRe_bracket [OF that(1,2), of b]
      by (simp add: resolve_def resolveMention_def falsy_def String_def test_def capture_def)
  qed
  have t1: "trim ''@durov'' = ''@durov''" "trim ''*durov'' = ''*durov''"
    "trim ''[club1|Label]'' = ''[club1|Label]''" by code_simp+
  have e1: "resolve d (Str ''@durov'') = resolveScreenName d (Some ''durov'')"
    using sigil [of "CHR ''@''" "''durov''"] t1 by simp
  have e2: "resolve d (Str ''*durov'') = resolveScreenName d (Some ''durov'')"
    using sigil [of "CHR ''*''" "''durov''"] t1 by simp
  have e3: "resolve d (Str ''[club1|Label]'') = resolveScreenName d (Some ''club1'')"
    using bracket [of "''club1''" "''Label]''"] t1 by (simp add: isUserMentionRe_test_def)
  have e4: "resolve deps_model (Str ''club1'') =
       Inr \<lparr>id' = Integer 1, ownerId = None, type' = ''group''\<rparr>"
    by code_simp
  show ?thesis using plain club sigil bracket e1 e2 e3 e4 by simp
qed

subsection \<open>C8: platform URLs\<close>

text \<open>
  Claim C8 says that for every platform URL a missing scheme is defaulted to \<open>https\<close>
  before parsing. The string \<open>vk.com/away.php?to=http://x\<close> is a platform URL for the
  classifier and starts with no scheme; \<open>hasProtocolRe\<close> is not anchored and finds the
  \<open>http://\<close> inside the query, so nothing is prepended, the URL constructor receives
  the string as it is and throws.
\<close>

theorem inner_scheme_not_defaulted:
  "isVKUrl_test ''vk.com/away.php?to=http://x''
   \<and> \<not> startsWith_i ''http://'' ''vk.com/away.php?to=http://x''
   \<and> \<not> startsWith_i ''https://'' ''vk.com/away.php?to=http://x''
   \<and> hasProtocolRe_test ''vk.com/away.php?to=http://x''
   \<and> resourceUrl ''vk.com/away.php?to=http://x'' = ''vk.com/away.php?to=http://x''
   \<and> resolve deps_model (Str ''vk.com/away.php?to=http://x'') = Inl TypeError"
  by code_simp

text \<open>
  On the examples of the specification the URL resolver does what it describes: a bare
  domain fails with \<open>INVALID_URL\<close>, and an owner-tagged path or query value resolves with
  its owner.
\<close>

lemma resolveUrl_examples:
  "resolve deps_model (Str ''vk.com'') =
     Inl (ResourceError INVALID_URL ''URL should contain path'')"
  "resolve deps_model (Str ''https://vk.com/'') =
     Inl (ResourceError INVALID_URL ''URL should contain path'')"
  "resolve deps_model (Str ''vk.com/wall-1_2'') =
     Inr \<lparr>id' = Integer 2, ownerId = Some (Integer (- 1)), type' = ''wall''\<rparr>"
  "resolve deps_model (Str ''vk.com/feed?w=wall-1_2'') =
     Inr \<lparr>id' = Integer 2, ownerId = Some (Integer (- 1)), type' = ''wall''\<rparr>"
  by code_simp+

subsection \<open>C9: the remote fallback\<close>

text \<open>
  Claim C9: when none of the three grammars matches a string, the screen-name resolver
  calls the remote lookup with that string. An array in response fails with
  \<open>RESOURCE_NOT_FOUND\<close> and the message "Resource not found"; a record of type \<open>page\<close>
  gives \<open>{id: object_id, type: "group"}\<close>; a record of any other type gives
  \<open>{id: object_id, type}\<close> with the type as reported; neither carries an \<open>ownerId\<close>.
  With a directory that knows the user \<open>durov\<close> and the page \<open>team\<close>, both numbered 42,
  \<open>resolve\<close> returns accordingly and fails on an unknown name.
\<close>

theorem remote_fallback:
  "(parseAttachmentRe d r = None \<and> parseOwnerResourceRe d r = None
      \<and> parseResourceRe d r = None \<longrightarrow>
        (api_utils_resolveScreenName d (Some r) = IsArray \<longrightarrow>
           resolveScreenName d (Some r) =
             Inl (ResourceError RESOURCE_NOT_FOUND ''Resource not found''))
        \<and> (api_utils_resolveScreenName d (Some r) = Object ''page'' object_id \<longrightarrow>
           resolveScreenName d (Some r) =
             Inr \<lparr>id' = Integer object_id, ownerId = None, type' = ''group''\<rparr>)
        \<and> (api_utils_resolveScreenName d (Some r) = Object t object_id \<and> t \<noteq> ''page'' \<longrightarrow>
           resolveScreenName d (Some r) =
             Inr \<lparr>id' = Integer object_id, ownerId = None, type' = t\<rparr>))
   \<and> resolve deps_model (Str ''nobody'') =
       Inl (ResourceError RESOURCE_NOT_FOUND ''Resource not found'')
   \<and> resolve deps_model (Str ''team'') =
       Inr \<lparr>id' = Integer 42, ownerId = None, type' = ''group''\<rparr>
   \<and> resolve deps_model (Str ''durov'') =
       Inr \<lparr>id' = Integer 42, ownerId = None, type' = ''user''\<rparr>"
proof -
  have e1: "resolve deps_model (Str ''nobody'') =
       Inl (ResourceError RESOURCE_NOT_FOUND ''Resource not found'')" by code_simp
  have e2: "resolve deps_model (Str ''team'') =
       Inr \<lparr>id' = Integer 42, ownerId = None, type' = ''group''\<rparr>" by code_simp
  have e3: "resolve deps_model (Str ''durov'') =
       Inr \<lparr>id' = Integer 42, ownerId = None, type' = ''user''\<rparr>" by code_simp
  show ?thesis
    using e1 e2 e3 by (simp add: resolveScreenName_def test_def ResourceType_GROUP_def)
qed

theorem remote_fallback_witness:
  "resolveScreenName deps_model (Some ''nobody'') =
     Inl (ResourceError RESOURCE_NOT_FOUND ''Resource not found'')
   \<and> resolveScreenName deps_model (Some ''team'') =
       Inr \<lparr>id' = Integer 42, ownerId = None, type' = ''group''\<rparr>
   \<and> resolveScreenName deps_model (Some ''durov'') =
       Inr \<lparr>id' = Integer 42, ownerId = None, type' = ''user''\<rparr>"
proof -
  have a: "api_utils_resolveScreenName deps_model (Some ''nobody'') = IsArray"
    by (simp add: deps_model_def lookup_model_def)
  have b: "api_utils_resolveScreenName deps_model (Some ''team'') = Object ''page'' 42"
    by (simp add: deps_model_def lookup_model_def)
  have c: "api_utils_resolveScreenName deps_model (Some ''durov'') = Object ''user'' 42"
    by (simp add: deps_model_def lookup_model_def)
  show ?thesis
    using remote_fallback [of deps_model "''nobody''" 0 "''x''"]
      remote_fallback [of deps_model "''team''" 42 "''x''"]
      remote_fallback [of deps_model "''durov''" 42 "''user''"]
      no_grammar_nobody no_grammar_team no_grammar_durov a b c
    by simp
qed

subsection \<open>C10: the text "0" and the number 0\<close>

text \<open>
  Claim C10: the falsy check reads the raw value before it is converted and trimmed. The
  string \<open>0\<close> passes it, is read as the number 0 and re-dispatched as \<open>id0\<close>, which with
  the grammars of the specification is \<open>{id: 0, type: "user"}\<close>; the integer 0 fails
  with \<open>INVALID_RESOURCE\<close>.
\<close>

theorem zero_string_and_zero_number:
  "resolve d (Str ''0'') = resolveNumber d (Integer 0)
   \<and> resolveNumber d (Integer 0) = resolveScreenName d (Some ''id0'')
   \<and> resolve deps_model (Str ''0'') = Inr \<lparr>id' = Integer 0, ownerId = None, type' = ''user''\<rparr>
   \<and> resolve d (Num 0) = Inl (ResourceError INVALID_RESOURCE ''Resource is required'')"
proof -
  have 1: "resolve d (Str ''0'') = resolveNumber d (Integer 0)"
    by (simp add: resolve_def falsy_def String_def trim_def isWhiteSpace_def
      numberRe_test_def isDigit_def StringToNumber_def digitsToNat_def digitValue_def
      isSafeInteger_simps)
  have 2: "resolveNumber d (Integer 0) = resolveScreenName d (Some ''id0'')"
  proof -
    have "intToString 0 = ''0''" by code_simp
    then show ?thesis by (simp add: resolveNumber_def isSafeInteger_simps)
  qed
  have 3: "resolve deps_model (Str ''0'') =
      Inr \<lparr>id' = Integer 0, ownerId = None, type' = ''user''\<rparr>"
    by code_simp
  have 4: "resolve d (Num 0) = Inl (ResourceError INVALID_RESOURCE ''Resource is required'')"
    by (simp add: resolve_def falsy_def)
  show ?thesis using 1 2 3 4 by simp
qed

theorem zero_string_and_zero_number_witness:
  "resolve deps_model (Str ''0'') = resolveScreenName deps_model (Some ''id0'')
   \<and> resolve deps_model (Num 0) = Inl (ResourceError INVALID_RESOURCE ''Resource is required'')"
  using zero_string_and_zero_number [of deps_model] by simp

end
